theory Spec2Isabelle
  imports Main
begin

section \<open>app/utils.ts\<close>

subsection \<open>safeRedirect\<close>

text \<open>
  The first parameter has the type
  \<^verbatim>\<open>FormDataEntryValue | string | null | undefined\<close>, where a
  \<^verbatim>\<open>FormDataEntryValue\<close> is a string or a \<^verbatim>\<open>File\<close>. A file is an object: it is
  truthy and its \<^verbatim>\<open>typeof\<close> is \<^verbatim>\<open>'object'\<close>. Only its existence matters here, so
  it is represented by its name.
\<close>

datatype entry_value = Null | Undefined | Str string | File string

definition DEFAULT_REDIRECT :: string where
  "DEFAULT_REDIRECT = ''/''"

text \<open>\<^verbatim>\<open>s.startsWith(p)\<close>: the first \<^verbatim>\<open>p.length\<close> code units of \<^verbatim>\<open>s\<close> are \<^verbatim>\<open>p\<close>.\<close>

definition startsWith :: "string \<Rightarrow> string \<Rightarrow> bool" where
  "startsWith s p = (take (length p) s = p)"

text \<open>\<^verbatim>\<open>!to\<close>: null, undefined and the empty string are falsy; a file never is.\<close>

fun falsy :: "entry_value \<Rightarrow> bool" where
  "falsy Null = True"
| "falsy Undefined = True"
| "falsy (Str s) = (s = [])"
| "falsy (File f) = False"

fun is_string :: "entry_value \<Rightarrow> bool" where
  "is_string (Str s) = True"
| "is_string v = False"

text \<open>
  The second parameter is optional: when it is left out (or \<^verbatim>\<open>undefined\<close>), the
  default initialiser \<^verbatim>\<open>DEFAULT_REDIRECT\<close> is used.
\<close>

definition safeRedirect :: "entry_value \<Rightarrow> string option \<Rightarrow> string" where
  "safeRedirect to defaultRedirect_arg =
     (let defaultRedirect = (case defaultRedirect_arg of None \<Rightarrow> DEFAULT_REDIRECT | Some d \<Rightarrow> d) in
      if falsy to \<or> \<not> is_string to then defaultRedirect
      else (case to of
              Str s \<Rightarrow>
                if \<not> startsWith s ''/'' \<or> startsWith s ''//'' then defaultRedirect
                else s
            | _ \<Rightarrow> defaultRedirect))"

subsection \<open>isBusy\<close>

text \<open>
  \<^verbatim>\<open>Transition\<close> is the type of \<^verbatim>\<open>@remix-run/react\<close>: a union of objects whose
  \<^verbatim>\<open>state\<close> is one of three literals and whose \<^verbatim>\<open>type\<close> is one of nine. The
  function reads these two fields only.
\<close>

datatype transition_state = Idle | Submitting | Loading

datatype transition_type =
    IdleType
  | ActionSubmission
  | LoaderSubmission
  | LoaderSubmissionRedirect
  | ActionReload
  | ActionRedirect
  | FetchActionRedirect
  | NormalRedirect
  | NormalLoad

record transition =
  state :: transition_state
  type :: transition_type

text \<open>
  The object literal \<^verbatim>\<open>loading\<close> has the two own keys \<^verbatim>\<open>actionRedirect\<close> and
  \<^verbatim>\<open>actionReload\<close>, both \<^verbatim>\<open>true\<close>. Reading any other transition type from it
  yields \<^verbatim>\<open>undefined\<close>, which is \<open>None\<close> here.
\<close>

fun loading :: "transition_type \<Rightarrow> bool option" where
  "loading ActionRedirect = Some True"
| "loading ActionReload = Some True"
| "loading k = None"

text \<open>The result is \<^verbatim>\<open>true\<close>, \<^verbatim>\<open>false\<close> or \<^verbatim>\<open>undefined\<close> (\<open>None\<close>).\<close>

definition isBusy :: "transition \<Rightarrow> bool option" where
  "isBusy transition =
     (if state transition = Submitting then Some True
      else if state transition = Loading then loading (type transition)
      else Some False)"

section \<open>Collaborators outside the sources\<close>

text \<open>
  The session store, the persistence layer and the theme provider are modules of the
  application whose code is not part of the sources at hand
  (\<^verbatim>\<open>~/session.server\<close>, \<^verbatim>\<open>~/theme.server\<close>, \<^verbatim>\<open>~/models/*.server\<close>,
  \<^verbatim>\<open>~/ui/theme/theme-provider\<close>). They are modelled from the specification's data
  model (section 3) and interface contracts (section 6).
\<close>

text \<open>The enum \<^verbatim>\<open>Theme\<close>; its values are the strings \<^verbatim>\<open>'dark'\<close> and \<^verbatim>\<open>'light'\<close>.\<close>

datatype theme = Dark | Light

fun theme_string :: "theme \<Rightarrow> string" where
  "theme_string Dark = ''dark''"
| "theme_string Light = ''light''"

record user =
  user_id :: string
  email :: string

text \<open>
  Modelled from the spec: the session, an "opaque key-value store (theme:
  enum{light,dark,null}, user-id: optional string, flash-messages: transient string)".
\<close>

record session =
  session_theme :: "theme option"
  session_userId :: "string option"
  session_flash :: "string \<rightharpoonup> string"

definition empty_session :: session where
  "empty_session = \<lparr>session_theme = None, session_userId = None, session_flash = Map.empty\<rparr>"

text \<open>
  A request carries the session decoded from its signed cookie, if it has a valid one,
  and the entries of its form-encoded body.
\<close>

record request =
  cookie :: "session option"
  form :: "(string \<times> string) list"

text \<open>
  Modelled from the spec: \<^verbatim>\<open>getSession\<close> reads the session of the request; a session
  is "created on first request without a valid cookie".
\<close>

definition getSession :: "request \<Rightarrow> session" where
  "getSession request = (case cookie request of None \<Rightarrow> empty_session | Some s \<Rightarrow> s)"

text \<open>
  Modelled from the spec: \<^verbatim>\<open>getThemeSession(request).getTheme()\<close>, "read session,
  extract theme".
\<close>

definition getThemeSession :: "request \<Rightarrow> session" where
  "getThemeSession request = getSession request"

definition getTheme :: "session \<Rightarrow> theme option" where
  "getTheme themeSession = session_theme themeSession"

text \<open>
  Modelled from the spec: \<^verbatim>\<open>getUser(request) -> User|null\<close>, "resolve current user
  from session, failing open to no user if session absent". The users of the
  persistence layer are a map from user ids.
\<close>

definition getUser :: "(string \<rightharpoonup> user) \<Rightarrow> request \<Rightarrow> user option" where
  "getUser users request =
     (case session_userId (getSession request) of None \<Rightarrow> None | Some uid \<Rightarrow> users uid)"

text \<open>
  Responses of the framework: a status, headers and an optional body. \<^verbatim>\<open>json\<close> builds
  a response with a JSON body and the given status; \<^verbatim>\<open>redirect\<close> builds a 302
  response without body whose \<^verbatim>\<open>Location\<close> header is the target, next to the headers
  of its second argument.
\<close>

datatype 'b response =
  Response (status_of: nat) (headers_of: "string \<rightharpoonup> string") (body_of: "'b option")

definition json :: "'b \<Rightarrow> nat \<Rightarrow> 'b response" where
  "json d st = Response st [''Content-Type'' \<mapsto> ''application/json; charset=utf-8''] (Some d)"

definition redirect :: "string \<Rightarrow> (string \<rightharpoonup> string) \<Rightarrow> 'b response" where
  "redirect url hs = Response 302 (hs(''Location'' \<mapsto> url)) None"

definition redirect_class :: "'b response \<Rightarrow> bool" where
  "redirect_class r = (300 \<le> status_of r \<and> status_of r < 400 \<and> headers_of r ''Location'' \<noteq> None)"

text \<open>
  Modelled from the spec: \<^verbatim>\<open>requireUserId(request) -> string\<close> "(throws/redirects if
  absent)": for a protected route it fails "the whole request with an
  unauthorized/redirect-to-login result". A thrown response is \<open>Inl\<close>. The
  specification does not give the address of the login page; it is the parameter
  \<open>login\<close>.
\<close>

definition requireUserId :: "string \<Rightarrow> request \<Rightarrow> 'b response + string" where
  "requireUserId login request =
     (case session_userId (getSession request) of
        None \<Rightarrow> Inl (redirect login Map.empty)
      | Some userId \<Rightarrow> Inr userId)"

text \<open>
  Modelled from the spec: \<^verbatim>\<open>session.flash(key, value)\<close> sets "a transient success flash
  message in the session".
\<close>

definition flash :: "session \<Rightarrow> string \<Rightarrow> string \<Rightarrow> session" where
  "flash s k v = s\<lparr>session_flash := (session_flash s)(k \<mapsto> v)\<rparr>"

text \<open>
  Modelled from the spec: the theme that \<^verbatim>\<open>useTheme()\<close> yields below a
  \<^verbatim>\<open>ThemeProvider\<close> with the given \<^verbatim>\<open>specifiedTheme\<close>: the renderer "selects a root
  HTML class based on resolved theme (server-determined ...)" and the "session theme,
  once set, is echoed identically on the next render". The specification fixes the
  theme only when one is specified. For the other case the second argument stands for
  whatever the rendering side would choose by itself: nothing on the server, the
  preference of the browser in a render on the client.
\<close>

definition useTheme :: "theme option \<Rightarrow> theme option \<Rightarrow> theme option" where
  "useTheme specifiedTheme own_choice =
     (case specifiedTheme of Some t \<Rightarrow> Some t | None \<Rightarrow> own_choice)"

section \<open>The element tree\<close>

text \<open>
  A JSX expression evaluates to a tree: text, \<^verbatim>\<open>null\<close>, or an element (an HTML tag or
  a component that is not expanded here) with its props and children.
\<close>

datatype prop_value = PStr string | PBool bool | PTheme "theme option" | PHtml string

datatype jsx = Text string | JsxNull | Elem string "(string \<times> prop_value) list" "jsx list"

text \<open>The tags of a tree in document order, its texts, and the props of its root.\<close>

fun tags :: "jsx \<Rightarrow> string list" where
  "tags (Text s) = []"
| "tags JsxNull = []"
| "tags (Elem n ps cs) = n # concat (map tags cs)"

fun texts :: "jsx \<Rightarrow> string list" where
  "texts (Text s) = [s]"
| "texts JsxNull = []"
| "texts (Elem n ps cs) = concat (map texts cs)"

fun root_prop :: "jsx \<Rightarrow> string \<Rightarrow> prop_value option" where
  "root_prop (Elem n ps cs) k = map_of ps k"
| "root_prop x k = None"

fun children_of :: "jsx \<Rightarrow> jsx list" where
  "children_of (Elem n ps cs) = cs"
| "children_of x = []"

text \<open>The first child of an element; \<^verbatim>\<open>null\<close> when there is none.\<close>

fun first_child :: "jsx \<Rightarrow> jsx" where
  "first_child (Elem n ps (c # cs)) = c"
| "first_child x = JsxNull"

text \<open>The inline scripts of a tree: the \<^verbatim>\<open>__html\<close> of every \<^verbatim>\<open>script\<close> element.\<close>

fun inline_scripts :: "jsx \<Rightarrow> string list" where
  "inline_scripts (Text s) = []"
| "inline_scripts JsxNull = []"
| "inline_scripts (Elem n ps cs) =
     (if n = ''script''
      then (case map_of ps ''dangerouslySetInnerHTML'' of Some (PHtml h) \<Rightarrow> [h] | _ \<Rightarrow> [])
      else []) @ concat (map inline_scripts cs)"

text \<open>The tags that come before the first tag \<open>n\<close> in a list of tags.\<close>

definition before_tag :: "string \<Rightarrow> string list \<Rightarrow> string list" where
  "before_tag n ts = takeWhile (\<lambda>t. t \<noteq> n) ts"

section \<open>JavaScript values and JSON\<close>

text \<open>
  A value of type \<^verbatim>\<open>any\<close>. A number or an object is represented by the two things
  the code reads of it: whether it is truthy, and the string that \<^verbatim>\<open>ToString\<close> gives.
\<close>

datatype js_any =
    JUndefined
  | JNull
  | JBool bool
  | JString string
  | JOther bool string

fun truthy :: "js_any \<Rightarrow> bool" where
  "truthy JUndefined = False"
| "truthy JNull = False"
| "truthy (JBool b) = b"
| "truthy (JString s) = (s \<noteq> [])"
| "truthy (JOther t s) = t"

fun ToString :: "js_any \<Rightarrow> string" where
  "ToString JUndefined = ''undefined''"
| "ToString JNull = ''null''"
| "ToString (JBool b) = (if b then ''true'' else ''false'')"
| "ToString (JString s) = s"
| "ToString (JOther t s) = s"

text \<open>\<^verbatim>\<open>a || b\<close>\<close>

definition js_or :: "js_any \<Rightarrow> js_any \<Rightarrow> js_any" where
  "js_or a b = (if truthy a then a else b)"

text \<open>\<^verbatim>\<open>new Error(m)\<close>: the message is \<^verbatim>\<open>ToString(m)\<close>, and empty without \<^verbatim>\<open>m\<close>.\<close>

record js_error =
  message :: string

definition new_Error :: "js_any \<Rightarrow> js_error" where
  "new_Error m = \<lparr>message = (case m of JUndefined \<Rightarrow> [] | _ \<Rightarrow> ToString m)\<rparr>"

text \<open>The decimal digits of a natural number, as a template literal prints it.\<close>

fun string_of_nat :: "nat \<Rightarrow> string" where
  "string_of_nat n =
     (if n < 10 then [''0123456789'' ! n]
      else string_of_nat (n div 10) @ [''0123456789'' ! (n mod 10)])"

declare string_of_nat.simps [simp del]

text \<open>
  \<^verbatim>\<open>JSON.stringify\<close> on strings: the quotation mark, the backslash and the control
  characters are escaped, every other character stands for itself.
\<close>

definition quote_char :: "char \<Rightarrow> string" where
  "quote_char c =
     (let n = (of_char c :: nat) in
      if n = 8 then [CHR 0x5C, CHR ''b'']
      else if n = 9 then [CHR 0x5C, CHR ''t'']
      else if n = 10 then [CHR 0x5C, CHR ''n'']
      else if n = 12 then [CHR 0x5C, CHR ''f'']
      else if n = 13 then [CHR 0x5C, CHR ''r'']
      else if n = 34 then [CHR 0x5C, CHR 0x22]
      else if n = 92 then [CHR 0x5C, CHR 0x5C]
      else if n < 32 then
        [CHR 0x5C, CHR ''u'', CHR ''0'', CHR ''0'',
         ''0123456789abcdef'' ! (n div 16), ''0123456789abcdef'' ! (n mod 16)]
      else [c])"

definition QuoteJSONString :: "string \<Rightarrow> string" where
  "QuoteJSONString s = CHR 0x22 # concat (map quote_char s) @ [CHR 0x22]"

text \<open>
  An object whose properties are strings or \<^verbatim>\<open>undefined\<close>, in the order of its keys.
  \<^verbatim>\<open>JSON.stringify\<close> leaves out the properties that are \<^verbatim>\<open>undefined\<close>; of
  \<^verbatim>\<open>null\<close> it gives \<^verbatim>\<open>null\<close>.
\<close>

type_synonym env_object = "(string \<times> string option) list"

fun stringify_props :: "env_object \<Rightarrow> string list" where
  "stringify_props [] = []"
| "stringify_props ((k, None) # r) = stringify_props r"
| "stringify_props ((k, Some v) # r) =
     (QuoteJSONString k @ '':'' @ QuoteJSONString v) # stringify_props r"

fun join :: "string \<Rightarrow> string list \<Rightarrow> string" where
  "join sep [] = []"
| "join sep [x] = x"
| "join sep (x # y # r) = x @ sep @ join sep (y # r)"

definition JSON_stringify :: "env_object option \<Rightarrow> string" where
  "JSON_stringify v =
     (case v of None \<Rightarrow> ''null'' | Some ps \<Rightarrow> ''{'' @ join '','' (stringify_props ps) @ ''}'')"

section \<open>The root route (\<^verbatim>\<open>src/unnamed/part_000\<close>)\<close>

subsection \<open>loader\<close>

record loader_data =
  theme :: "theme option"
  user :: "user option"
  ENV :: "env_object option"

text \<open>
  \<^verbatim>\<open>process.env\<close> is a map from names to strings; a variable that is not set reads
  as \<^verbatim>\<open>undefined\<close>. The loader answers \<^verbatim>\<open>json(data)\<close>, a response of status 200.
\<close>

definition loader_root ::
  "(string \<rightharpoonup> string) \<Rightarrow> (string \<rightharpoonup> user) \<Rightarrow> request \<Rightarrow> loader_data response" where
  "loader_root process_env users request =
     (let themeSession = getThemeSession request;
          user = getUser users request;
          data = \<lparr>theme = getTheme themeSession,
                  user = user,
                  ENV = Some [(''RECAPTCHA_ENABLED'', process_env ''RECAPTCHA_ENABLED''),
                              (''RECAPTCHA_SITE_KEY'', process_env ''RECAPTCHA_SITE_KEY'')]\<rparr>
      in json data 200)"

text \<open>\<^verbatim>\<open>useLoaderData()\<close> in the root route: the body that the root loader answered.\<close>

definition useLoaderData :: "'b response \<Rightarrow> 'b option" where
  "useLoaderData r = body_of r"

subsection \<open>Document and ErrorDocument\<close>

text \<open>\<^verbatim>\<open>cx(t.theme)\<close> of the classnames library: the theme's string, nothing for null.\<close>

definition cx :: "theme option \<Rightarrow> string" where
  "cx t = (case t of None \<Rightarrow> [] | Some v \<Rightarrow> theme_string v)"

definition meta_tag :: "string \<Rightarrow> string \<Rightarrow> jsx" where
  "meta_tag name content = Elem ''meta'' [(''name'', PStr name), (''content'', PStr content)] []"

definition link_tag :: "(string \<times> prop_value) list \<Rightarrow> jsx" where
  "link_tag ps = Elem ''link'' ps []"

text \<open>The nine \<^verbatim>\<open>link\<close> elements; both documents have the same ones.\<close>

definition icon_links :: "jsx list" where
  "icon_links =
     [link_tag [(''rel'', PStr ''apple-touch-icon''), (''sizes'', PStr ''180x180''),
                (''href'', PStr ''/apple-touch-icon.png?v=10'')],
      link_tag [(''rel'', PStr ''icon''), (''type'', PStr ''image/png''), (''sizes'', PStr ''96x96''),
                (''href'', PStr ''/favicon-96x96.png?v=10'')],
      link_tag [(''rel'', PStr ''icon''), (''type'', PStr ''image/png''), (''sizes'', PStr ''48x48''),
                (''href'', PStr ''/favicon-48x48.png?v=10'')],
      link_tag [(''rel'', PStr ''icon''), (''type'', PStr ''image/png''), (''sizes'', PStr ''32x32''),
                (''href'', PStr ''/favicon-32x32.png?v=10'')],
      link_tag [(''rel'', PStr ''icon''), (''type'', PStr ''image/png''), (''sizes'', PStr ''16x16''),
                (''href'', PStr ''/favicon-16x16.png?v=10'')],
      link_tag [(''rel'', PStr ''icon''), (''href'', PStr ''/favicon.ico?v=10'')],
      link_tag [(''rel'', PStr ''manifest''), (''href'', PStr ''/manifest.webmanifest?v=10''),
                (''crossOrigin'', PStr ''use-credentials'')],
      link_tag [(''rel'', PStr ''mask-icon''), (''href'', PStr ''/safari-pinned-tab.svg?v=10''),
                (''color'', PStr ''#501c76'')],
      link_tag [(''rel'', PStr ''icon''), (''href'', PStr ''/favicon.ico?v=10'')]]"

text \<open>\<^verbatim>\<open>{title ? <title>{title}</title> : null}\<close>; the empty string is falsy too.\<close>

definition title_element :: "string option \<Rightarrow> jsx" where
  "title_element title =
     (case title of
        None \<Rightarrow> JsxNull
      | Some t \<Rightarrow> if t = [] then JsxNull else Elem ''title'' [] [Text t])"

text \<open>
  The two hooks of \<^verbatim>\<open>Document\<close> are its first two arguments: the theme of
  \<^verbatim>\<open>useTheme()\<close> and the data of \<^verbatim>\<open>useLoaderData()\<close>.
\<close>

definition Document :: "theme option \<Rightarrow> loader_data \<Rightarrow> jsx list \<Rightarrow> string option \<Rightarrow> jsx" where
  "Document t_theme data children title =
     Elem ''html'' [(''lang'', PStr ''en''), (''className'', PStr (cx t_theme))]
       [Elem ''head'' []
          ([Elem ''meta'' [(''charSet'', PStr ''utf-8'')] [],
            meta_tag ''viewport'' ''width=device-width,initial-scale=1'',
            meta_tag ''theme-color'' ''#f59e0b'',
            meta_tag ''description'' ''A Remix demo app with Radix UI, headless UI and Tailwind CSS.'',
            meta_tag ''msapplication-TileColor'' ''#f59e0b'']
           @ icon_links
           @ [Elem ''NonFlashOfWrongThemeEls'' [(''ssrTheme'', PBool (theme data \<noteq> None))] [],
              title_element title,
              Elem ''Meta'' [] [],
              Elem ''Links'' [] []]),
        Elem ''body''
          [(''className'',
            PStr ''bg-white selection:bg-amber-400 dark:bg-gray-900 dark:selection:text-black'')]
          (children
           @ [Elem ''ScrollRestoration'' [] [],
              Elem ''script''
                [(''dangerouslySetInnerHTML'', PHtml (''window.ENV = '' @ JSON_stringify (ENV data)))] [],
              Elem ''Scripts'' [] [],
              Elem ''LiveReload'' [] []])]"

definition ErrorDocument :: "jsx list \<Rightarrow> string option \<Rightarrow> jsx" where
  "ErrorDocument children title =
     Elem ''html'' [(''lang'', PStr ''en''), (''className'', PStr ''dark'')]
       [Elem ''head'' []
          ([Elem ''meta'' [(''charSet'', PStr ''utf-8'')] [],
            meta_tag ''viewport'' ''width=device-width,initial-scale=1'',
            meta_tag ''theme-color'' ''#f59e0b'',
            meta_tag ''msapplication-TileColor'' ''#f59e0b'',
            meta_tag ''description'' ''A Remix demo app with Radix UI, headless UI and Tailwind CSS.'']
           @ icon_links
           @ [title_element title,
              Elem ''Meta'' [] [],
              Elem ''Links'' [] []]),
        Elem ''body'' [(''className'', PStr ''bg-white dark:bg-gray-900'')]
          (children
           @ [Elem ''Scripts'' [] [],
              Elem ''LiveReload'' [] []])]"

subsection \<open>App\<close>

text \<open>
  \<^verbatim>\<open>Document\<close> is rendered below the \<^verbatim>\<open>ThemeProvider\<close>, whose
  \<^verbatim>\<open>specifiedTheme\<close> is the theme of the loader data. The first argument is the
  rendering side's own choice of theme, as for \<open>useTheme\<close>: \<open>None\<close> in the render on the
  server, anything in a later render on the client.
\<close>

definition App :: "theme option \<Rightarrow> loader_data \<Rightarrow> jsx" where
  "App own_choice data =
     Elem ''ThemeProvider'' [(''specifiedTheme'', PTheme (theme data))]
       [Document (useTheme (theme data) own_choice) data
          [Elem ''ToastPrimitive.Provider'' []
             [Elem ''Outlet'' [] [],
              Elem ''ToastPrimitive.Viewport'' [] []]]
          None]"

subsection \<open>ErrorBoundary\<close>

text \<open>
  The boundary writes the error to the console, which is the list of the errors
  written so far, and returns its tree. A component either returns a tree (\<open>Inr\<close>)
  or throws (\<open>Inl\<close>).
\<close>

definition ErrorBoundary :: "js_error \<Rightarrow> js_error list \<Rightarrow> (js_error + jsx) \<times> js_error list" where
  "ErrorBoundary error console =
     (Inr (Elem ''ThemeProvider'' [(''specifiedTheme'', PTheme None)]
             [ErrorDocument
                [Elem ''ErrorLayout'' []
                   [Elem ''div'' []
                      [Elem ''h1'' [] [Text ''There was an error''],
                       Elem ''p'' [] [Text (message error)],
                       Elem ''p'' [] [Text ''Oops. Something went wrong. We're looking into it.'']]]]
                (Some ''Error! - Infonomic Remix Workbench App'')]),
      console @ [error])"

subsection \<open>CatchBoundary\<close>

text \<open>\<^verbatim>\<open>useCatch()\<close>: the status, the status text and the parsed body of the response.\<close>

record caught_response =
  status :: nat
  statusText :: string
  data :: js_any

definition CatchBoundary :: "caught_response \<Rightarrow> js_error + jsx" where
  "CatchBoundary caught =
     (case (if status caught = 401 then
              Inr (Elem ''p'' []
                     [Text ''Oops! Looks like you tried to visit a page that you do not have access to.''])
            else if status caught = 404 then
              Inr (Elem ''p'' []
                     [Text ''Oops! Looks like you tried to visit a page that does not exist.''])
            else Inl (new_Error (js_or (data caught) (JString (statusText caught)))))
      of
        Inl thrown \<Rightarrow> Inl thrown
      | Inr message_p \<Rightarrow>
          Inr (Elem ''ThemeProvider'' [(''specifiedTheme'', PTheme None)]
                 [ErrorDocument
                    [Elem ''ErrorLayout'' []
                       [Elem ''h1'' []
                          [Text (string_of_nat (status caught)), Text '': '', Text (statusText caught)],
                        message_p]]
                    (Some (string_of_nat (status caught) @ '' '' @ statusText caught))]))"

section \<open>app/routes/theme.tsx\<close>

text \<open>
  \<^verbatim>\<open>await requireUserId(request)\<close>, then \<^verbatim>\<open>return null\<close>: a response that
  \<^verbatim>\<open>requireUserId\<close> throws leaves the loader at once.
\<close>

definition loader_theme :: "string \<Rightarrow> request \<Rightarrow> unit response + js_any" where
  "loader_theme login request =
     (case requireUserId login request of
        Inl thrown \<Rightarrow> Inl thrown
      | Inr userId \<Rightarrow> Inr JNull)"

section \<open>\<^verbatim>\<open>app/routes/_app+/notes.new.tsx\<close>\<close>

text \<open>
  The fields of a parsed form, the argument of \<^verbatim>\<open>createNote\<close> and the note it
  answers.
\<close>

record note_data =
  title :: string
  body :: string

record note_args = note_data +
  userId :: string

record saved_note = note_args +
  id :: string

text \<open>
  What the action calls and is neither in the sources nor fixed by the specification:
  the schema (\<^verbatim>\<open>schema.safeParse\<close> answers an error or the parsed fields,
  \<^verbatim>\<open>error.format()\<close> the field errors), the note that \<^verbatim>\<open>createNote\<close> answers (the
  \<^verbatim>\<open>?.\<close> of the source allows for none), the cookie that \<^verbatim>\<open>commitSession\<close> signs,
  and the address of the login page.
\<close>

record ('e, 'f) collaborators =
  login :: string
  safeParse :: "(string \<times> string) list \<Rightarrow> 'e + note_data"
  format :: "'e \<Rightarrow> 'f"
  createNote :: "note_args \<Rightarrow> saved_note option"
  commitSession :: "session \<Rightarrow> string"

datatype 'f error_body = Errors 'f

text \<open>
  The action answers what it returns (\<open>Inr\<close>) or throws (\<open>Inl\<close>), and the calls of
  \<^verbatim>\<open>createNote\<close> it made, in order. Of the three promises of \<^verbatim>\<open>Promise.all\<close> only
  \<^verbatim>\<open>requireUserId\<close> can reject, by its contract.
\<close>

definition action ::
  "('e, 'f) collaborators \<Rightarrow> request
     \<Rightarrow> ('f error_body response + 'f error_body response) \<times> note_args list" where
  "action c request =
     (case requireUserId (login c) request of
        Inl thrown \<Rightarrow> (Inl thrown, [])
      | Inr uid \<Rightarrow>
          (let session = getSession request;
               formData = form request;
               parseResult = safeParse c formData
           in case parseResult of
                Inl error \<Rightarrow> (Inr (json (Errors (format c error)) 400), [])
              | Inr parsed \<Rightarrow>
                  (let args = \<lparr>title = title parsed, body = body parsed, userId = uid\<rparr>;
                       note = createNote c args;
                       flashed = flash session ''success''
                         (''Note with title: ''
                          @ [CHR 0x27] @ (case note of None \<Rightarrow> ''undefined'' | Some n \<Rightarrow> title n)
                          @ [CHR 0x27] @ '' was successfully created.'')
                   in (Inr (redirect ''/notes'' [''Set-Cookie'' \<mapsto> commitSession c flashed]),
                       [args]))))"

subsection \<open>A sample of the collaborators\<close>

text \<open>
  Modelled from the spec: a schema that accepts a form with the fields \<^verbatim>\<open>title\<close> and
  \<^verbatim>\<open>body\<close> and answers, for a form that lacks one, an error map "keyed by field name"
  with a message list. It serves to run the action on concrete requests.
\<close>

definition sample_safeParse :: "(string \<times> string) list \<Rightarrow> (string \<times> string list) list + note_data" where
  "sample_safeParse fd =
     (case (map_of fd ''title'', map_of fd ''body'') of
        (Some t, Some b) \<Rightarrow> Inr \<lparr>title = t, body = b\<rparr>
      | (t, b) \<Rightarrow>
          Inl ((if t = None then [(''title'', [''Required''])] else [])
               @ (if b = None then [(''body'', [''Required''])] else [])))"

definition sample_createNote :: "note_args \<Rightarrow> saved_note option" where
  "sample_createNote a = Some \<lparr>title = title a, body = body a, userId = userId a, id = ''n1''\<rparr>"

definition sample_commitSession :: "session \<Rightarrow> string" where
  "sample_commitSession s =
     ''__session='' @ (case session_userId s of None \<Rightarrow> [] | Some u \<Rightarrow> u)
       @ '';'' @ (case session_flash s ''success'' of None \<Rightarrow> [] | Some m \<Rightarrow> m)"

definition sample :: "((string \<times> string list) list, (string \<times> string list) list) collaborators" where
  "sample = \<lparr>login = ''/login'', safeParse = sample_safeParse, format = (\<lambda>e. e),
             createNote = sample_createNote, commitSession = sample_commitSession\<rparr>"

text \<open>A request without a session cookie, and one of the signed-in user \<^verbatim>\<open>u1\<close>.\<close>

definition anonymous :: "(string \<times> string) list \<Rightarrow> request" where
  "anonymous fd = \<lparr>cookie = None, form = fd\<rparr>"

definition signed_in :: "(string \<times> string) list \<Rightarrow> request" where
  "signed_in fd =
     \<lparr>cookie = Some \<lparr>session_theme = Some Dark, session_userId = Some ''u1'',
                     session_flash = Map.empty\<rparr>,
      form = fd\<rparr>"

section \<open>Properties of app/utils.ts\<close>

text \<open>
  Claim C9. \<^verbatim>\<open>safeRedirect\<close> answers the default redirect (\<^verbatim>\<open>'/'\<close> when none is
  supplied) whenever the input is null, undefined, the empty string, not a string, a
  string that does not start with \<^verbatim>\<open>'/'\<close>, or a string that starts with \<^verbatim>\<open>'//'\<close>.
  Every other input is a string and is returned unchanged. Hence, when the default
  starts with exactly one \<^verbatim>\<open>'/'\<close>, so does the result.
\<close>

theorem safeRedirect_spec:
  fixes to :: entry_value and d :: "string option"
  defines "dflt \<equiv> (case d of None \<Rightarrow> ''/'' | Some x \<Rightarrow> x)"
  defines "unsafe \<equiv> (to = Null \<or> to = Undefined \<or> to = Str [] \<or> \<not> is_string to
                       \<or> (\<exists>s. to = Str s \<and> (\<not> startsWith s ''/'' \<or> startsWith s ''//'')))"
  shows "(unsafe \<longrightarrow> safeRedirect to d = dflt)
       \<and> (\<not> unsafe \<longrightarrow> to = Str (safeRedirect to d))
       \<and> (startsWith dflt ''/'' \<and> \<not> startsWith dflt ''//''
            \<longrightarrow> startsWith (safeRedirect to d) ''/'' \<and> \<not> startsWith (safeRedirect to d) ''//'')"
proof -
  have dflt: "(case d of None \<Rightarrow> DEFAULT_REDIRECT | Some x \<Rightarrow> x) = dflt"
    by (simp add: dflt_def DEFAULT_REDIRECT_def split: option.split)
  show ?thesis
  proof (cases to)
    case Null
    then show ?thesis by (simp add: safeRedirect_def dflt unsafe_def)
  next
    case Undefined
    then show ?thesis by (simp add: safeRedirect_def dflt unsafe_def)
  next
    case (File f)
    then show ?thesis by (simp add: safeRedirect_def dflt unsafe_def)
  next
    case (Str s)
    show ?thesis
    proof (cases "s = [] \<or> \<not> startsWith s ''/'' \<or> startsWith s ''//''")
      case True
      then have u: unsafe using Str by (auto simp: unsafe_def)
      from True have "safeRedirect to d = dflt"
        using Str by (auto simp: safeRedirect_def dflt Let_def)
      with u show ?thesis by simp
    next
      case False
      then have u: "\<not> unsafe" using Str by (auto simp: unsafe_def)
      from False have "safeRedirect to d = s"
        using Str by (auto simp: safeRedirect_def dflt Let_def)
      with u False Str show ?thesis by simp
    qed
  qed
qed

theorem safeRedirect_spec_witness:
  "safeRedirect (Str ''//evil.example'') None = ''/''
   \<and> safeRedirect (Str ''https://evil.example'') None = ''/''
   \<and> safeRedirect (File ''a.txt'') (Some ''/home'') = ''/home''
   \<and> safeRedirect (Str ''/notes'') None = ''/notes''
   \<and> startsWith (safeRedirect (Str ''/notes'') None) ''/''"
  using safeRedirect_spec [of "Str ''//evil.example''" None]
        safeRedirect_spec [of "Str ''https://evil.example''" None]
        safeRedirect_spec [of "File ''a.txt''" "Some ''/home''"]
        safeRedirect_spec [of "Str ''/notes''" None]
  by (simp add: startsWith_def)

text \<open>
  Claim C10. For a transition in state \<^verbatim>\<open>'loading'\<close> whose type is neither
  \<^verbatim>\<open>'actionRedirect'\<close> nor \<^verbatim>\<open>'actionReload'\<close>, \<^verbatim>\<open>isBusy\<close> returns
  \<^verbatim>\<open>undefined\<close>, not \<^verbatim>\<open>false\<close>: the result is not always a boolean. It returns
  \<^verbatim>\<open>true\<close> exactly when the state is \<^verbatim>\<open>'submitting'\<close>, or the state is
  \<^verbatim>\<open>'loading'\<close> and the type is one of those two.
\<close>

theorem isBusy_spec:
  "(state t = Loading \<and> type t \<noteq> ActionRedirect \<and> type t \<noteq> ActionReload
      \<longrightarrow> isBusy t = None \<and> isBusy t \<noteq> Some False)
   \<and> (isBusy t = Some True
        \<longleftrightarrow> state t = Submitting
            \<or> (state t = Loading \<and> (type t = ActionRedirect \<or> type t = ActionReload)))"
  by (cases "state t"; cases "type t") (simp_all add: isBusy_def)

theorem isBusy_spec_witness:
  "isBusy \<lparr>state = Loading, type = NormalLoad\<rparr> = None
   \<and> isBusy \<lparr>state = Loading, type = ActionReload\<rparr> = Some True
   \<and> isBusy \<lparr>state = Submitting, type = ActionSubmission\<rparr> = Some True
   \<and> isBusy \<lparr>state = Idle, type = IdleType\<rparr> = Some False"
  using isBusy_spec [of "\<lparr>state = Loading, type = NormalLoad\<rparr>"]
        isBusy_spec [of "\<lparr>state = Loading, type = ActionReload\<rparr>"]
        isBusy_spec [of "\<lparr>state = Submitting, type = ActionSubmission\<rparr>"]
  by (simp add: isBusy_def)

section \<open>Properties of the root route\<close>

lemma string_of_nat_401: "string_of_nat 401 = ''401''"
  by code_simp

lemma string_of_nat_404: "string_of_nat 404 = ''404''"
  by code_simp

lemma tags_icon_links:
  "concat (map tags icon_links) =
     [''link'', ''link'', ''link'', ''link'', ''link'', ''link'', ''link'', ''link'', ''link'']"
  by (simp add: icon_links_def link_tag_def)

lemma texts_icon_links: "concat (map texts icon_links) = []"
  by (simp add: icon_links_def link_tag_def)

lemma scripts_icon_links: "concat (map inline_scripts icon_links) = []"
  by (simp add: icon_links_def link_tag_def)

lemma tags_title_element:
  "tags (title_element t) = (if t = None \<or> t = Some [] then [] else [''title''])"
  by (simp add: title_element_def split: option.split)

lemma scripts_title_element: "inline_scripts (title_element t) = []"
  by (simp add: title_element_def split: option.split)

lemma tags_ErrorDocument:
  "tags (ErrorDocument ch t) =
     [''html'', ''head'', ''meta'', ''meta'', ''meta'', ''meta'', ''meta'',
      ''link'', ''link'', ''link'', ''link'', ''link'', ''link'', ''link'', ''link'', ''link'']
     @ tags (title_element t)
     @ [''Meta'', ''Links'', ''body'']
     @ concat (map tags ch)
     @ [''Scripts'', ''LiveReload'']"
  by (simp add: ErrorDocument_def meta_tag_def tags_icon_links)

lemma scripts_ErrorDocument:
  "inline_scripts (ErrorDocument ch t) = concat (map inline_scripts ch)"
  by (simp add: ErrorDocument_def meta_tag_def scripts_icon_links scripts_title_element)

lemma texts_ErrorDocument:
  "texts (ErrorDocument ch t) = texts (title_element t) @ concat (map texts ch)"
  by (simp add: ErrorDocument_def meta_tag_def texts_icon_links)

lemma tags_Document:
  "tags (Document th d ch t) =
     [''html'', ''head'', ''meta'', ''meta'', ''meta'', ''meta'', ''meta'',
      ''link'', ''link'', ''link'', ''link'', ''link'', ''link'', ''link'', ''link'', ''link'',
      ''NonFlashOfWrongThemeEls'']
     @ tags (title_element t)
     @ [''Meta'', ''Links'', ''body'']
     @ concat (map tags ch)
     @ [''ScrollRestoration'', ''script'', ''Scripts'', ''LiveReload'']"
  by (simp add: Document_def meta_tag_def tags_icon_links)

lemma scripts_Document:
  "inline_scripts (Document th d ch t) =
     concat (map inline_scripts ch) @ [''window.ENV = '' @ JSON_stringify (ENV d)]"
  by (simp add: Document_def meta_tag_def scripts_icon_links scripts_title_element)

lemma useTheme_Some: "useTheme (Some t) own = Some t"
  by (simp add: useTheme_def)

lemma first_child_App:
  "first_child (App own d) =
     Document (useTheme (theme d) own) d
        [Elem ''ToastPrimitive.Provider'' []
           [Elem ''Outlet'' [] [], Elem ''ToastPrimitive.Viewport'' [] []]]
        None"
  by (simp add: App_def)

lemma class_Document: "root_prop (Document th d ch t) ''className'' = Some (PStr (cx th))"
  by (simp add: Document_def)

lemma before_Document:
  "before_tag ''NonFlashOfWrongThemeEls'' (tags (Document th d ch t)) =
     [''html'', ''head'', ''meta'', ''meta'', ''meta'', ''meta'', ''meta'',
      ''link'', ''link'', ''link'', ''link'', ''link'', ''link'', ''link'', ''link'', ''link'']"
  by (simp add: tags_Document before_tag_def)

lemma head_Document:
  "Elem ''NonFlashOfWrongThemeEls'' [(''ssrTheme'', PBool (theme d \<noteq> None))] []
     \<in> set (children_of (first_child (Document th d ch t)))
   \<and> inline_scripts (first_child (Document th d ch t)) = []"
  by (simp add: Document_def meta_tag_def scripts_icon_links scripts_title_element)

lemma App_specified: "theme d = Some t \<Longrightarrow> App own d = App None d"
  by (simp add: App_def useTheme_Some)

lemma payload_root:
  "useLoaderData (loader_root env users req) =
     Some \<lparr>theme = getTheme (getThemeSession req), user = getUser users req,
           ENV = Some [(''RECAPTCHA_ENABLED'', env ''RECAPTCHA_ENABLED''),
                       (''RECAPTCHA_SITE_KEY'', env ''RECAPTCHA_SITE_KEY'')]\<rparr>"
  by (simp add: useLoaderData_def loader_root_def json_def)


text \<open>
  Claim C3. In the \<^verbatim>\<open>CatchBoundary\<close>, a caught status 401 renders the message that
  the visitor does not have access to the page, a caught status 404 the message that
  the page does not exist, both inside the reduced error document. Every other status
  throws a new \<^verbatim>\<open>Error\<close>: its message is the caught body when there is one (the
  \<^verbatim>\<open>||\<close> of the source takes the body when it is truthy, and the message is its
  string), and the status text otherwise. The thrown error is what the
  \<^verbatim>\<open>ErrorBoundary\<close> then renders, with that message.
\<close>

theorem CatchBoundary_dispatch:
  "(status c = 401 \<longrightarrow>
      CatchBoundary c =
        Inr (Elem ''ThemeProvider'' [(''specifiedTheme'', PTheme None)]
               [ErrorDocument
                  [Elem ''ErrorLayout'' []
                     [Elem ''h1'' [] [Text ''401'', Text '': '', Text (statusText c)],
                      Elem ''p'' []
                        [Text ''Oops! Looks like you tried to visit a page that you do not have access to.'']]]
                  (Some (''401 '' @ statusText c))]))
   \<and> (status c = 404 \<longrightarrow>
      CatchBoundary c =
        Inr (Elem ''ThemeProvider'' [(''specifiedTheme'', PTheme None)]
               [ErrorDocument
                  [Elem ''ErrorLayout'' []
                     [Elem ''h1'' [] [Text ''404'', Text '': '', Text (statusText c)],
                      Elem ''p'' []
                        [Text ''Oops! Looks like you tried to visit a page that does not exist.'']]]
                  (Some (''404 '' @ statusText c))]))
   \<and> (status c \<noteq> 401 \<and> status c \<noteq> 404 \<longrightarrow>
      CatchBoundary c =
        Inl \<lparr>message = (if truthy (data c) then ToString (data c) else statusText c)\<rparr>)
   \<and> (\<forall>e console. CatchBoundary c = Inl e \<longrightarrow>
        (\<exists>doc. ErrorBoundary e console = (Inr doc, console @ [e]) \<and> message e \<in> set (texts doc)))"
proof -
  have unauthorized: "status c = 401 \<longrightarrow>
      CatchBoundary c =
        Inr (Elem ''ThemeProvider'' [(''specifiedTheme'', PTheme None)]
               [ErrorDocument
                  [Elem ''ErrorLayout'' []
                     [Elem ''h1'' [] [Text ''401'', Text '': '', Text (statusText c)],
                      Elem ''p'' []
                        [Text ''Oops! Looks like you tried to visit a page that you do not have access to.'']]]
                  (Some (''401 '' @ statusText c))])"
    by (simp add: CatchBoundary_def string_of_nat_401)
  have not_found: "status c = 404 \<longrightarrow>
      CatchBoundary c =
        Inr (Elem ''ThemeProvider'' [(''specifiedTheme'', PTheme None)]
               [ErrorDocument
                  [Elem ''ErrorLayout'' []
                     [Elem ''h1'' [] [Text ''404'', Text '': '', Text (statusText c)],
                      Elem ''p'' []
                        [Text ''Oops! Looks like you tried to visit a page that does not exist.'']]]
                  (Some (''404 '' @ statusText c))])"
    by (simp add: CatchBoundary_def string_of_nat_404)
  have other: "status c \<noteq> 401 \<and> status c \<noteq> 404 \<longrightarrow>
      CatchBoundary c =
        Inl \<lparr>message = (if truthy (data c) then ToString (data c) else statusText c)\<rparr>"
    by (cases "data c") (simp_all add: CatchBoundary_def new_Error_def js_or_def)
  have delegated: "\<forall>e console. CatchBoundary c = Inl e \<longrightarrow>
        (\<exists>doc. ErrorBoundary e console = (Inr doc, console @ [e]) \<and> message e \<in> set (texts doc))"
    by (simp add: ErrorBoundary_def texts_ErrorDocument)
  from unauthorized not_found other delegated show ?thesis by blast
qed

theorem CatchBoundary_dispatch_witness:
  "isl (CatchBoundary \<lparr>status = 500, statusText = ''Internal Server Error'', data = JString ''boom''\<rparr>)
   \<and> message (projl (CatchBoundary
        \<lparr>status = 500, statusText = ''Internal Server Error'', data = JString ''boom''\<rparr>)) = ''boom''
   \<and> message (projl (CatchBoundary
        \<lparr>status = 500, statusText = ''Internal Server Error'', data = JNull\<rparr>))
       = ''Internal Server Error''
   \<and> ''Oops! Looks like you tried to visit a page that does not exist.''
       \<in> set (texts (projr (CatchBoundary \<lparr>status = 404, statusText = ''Not Found'', data = JNull\<rparr>)))
   \<and> ''Oops! Looks like you tried to visit a page that you do not have access to.''
       \<in> set (texts (projr (CatchBoundary
             \<lparr>status = 401, statusText = ''Unauthorized'', data = JNull\<rparr>)))"
  using CatchBoundary_dispatch
          [of "\<lparr>status = 500, statusText = ''Internal Server Error'', data = JString ''boom''\<rparr>"]
        CatchBoundary_dispatch
          [of "\<lparr>status = 500, statusText = ''Internal Server Error'', data = JNull\<rparr>"]
        CatchBoundary_dispatch [of "\<lparr>status = 404, statusText = ''Not Found'', data = JNull\<rparr>"]
        CatchBoundary_dispatch [of "\<lparr>status = 401, statusText = ''Unauthorized'', data = JNull\<rparr>"]
  by (simp add: texts_ErrorDocument)

text \<open>
  Claim C5. For every error that reaches the \<^verbatim>\<open>ErrorBoundary\<close>, the boundary
  returns one tree and does not throw: the reduced error document, which holds the
  generic message that something went wrong and the message text of the error. The
  error is written to the console once.
\<close>

theorem ErrorBoundary_renders:
  "\<exists>doc children.
     ErrorBoundary e console = (Inr doc, console @ [e])
     \<and> children_of doc = [ErrorDocument children (Some ''Error! - Infonomic Remix Workbench App'')]
     \<and> message e \<in> set (texts doc)
     \<and> ''Oops. Something went wrong. We're looking into it.'' \<in> set (texts doc)"
proof -
  let ?children =
    "[Elem ''ErrorLayout'' []
        [Elem ''div'' []
           [Elem ''h1'' [] [Text ''There was an error''],
            Elem ''p'' [] [Text (message e)],
            Elem ''p'' [] [Text ''Oops. Something went wrong. We're looking into it.'']]]]"
  let ?doc =
    "Elem ''ThemeProvider'' [(''specifiedTheme'', PTheme None)]
       [ErrorDocument ?children (Some ''Error! - Infonomic Remix Workbench App'')]"
  have returned: "ErrorBoundary e console = (Inr ?doc, console @ [e])"
    by (simp add: ErrorBoundary_def)
  have reduced: "children_of ?doc
                   = [ErrorDocument ?children (Some ''Error! - Infonomic Remix Workbench App'')]"
    by simp
  have specific: "message e \<in> set (texts ?doc)"
    by (simp add: texts_ErrorDocument)
  have generic: "''Oops. Something went wrong. We're looking into it.'' \<in> set (texts ?doc)"
    by (simp add: texts_ErrorDocument)
  show ?thesis
    by (rule exI [of _ ?doc], rule exI [of _ ?children])
       (intro conjI returned reduced specific generic)
qed

theorem ErrorBoundary_renders_witness:
  "\<not> isl (fst (ErrorBoundary \<lparr>message = ''boom''\<rparr> []))
   \<and> snd (ErrorBoundary \<lparr>message = ''boom''\<rparr> []) = [\<lparr>message = ''boom''\<rparr>]
   \<and> ''boom'' \<in> set (texts (projr (fst (ErrorBoundary \<lparr>message = ''boom''\<rparr> []))))"
  using ErrorBoundary_renders [of "\<lparr>message = ''boom''\<rparr>" "[]"]
  by auto

text \<open>
  Claim C6, as the code has it. Every render of the reduced error document
  (\<^verbatim>\<open>ErrorDocument\<close>) carries the fixed root class \<^verbatim>\<open>dark\<close>, whatever the session
  theme is: it has no theme-dependent class, no \<^verbatim>\<open>NonFlashOfWrongThemeEls\<close>, no
  scroll restoration and no inline script of its own, so no environment globals. It
  does keep the framework's \<^verbatim>\<open>Scripts\<close> and the \<^verbatim>\<open>LiveReload\<close> element after its
  children.
\<close>

theorem ErrorDocument_reduced:
  "root_prop (ErrorDocument ch t) ''className'' = Some (PStr ''dark'')
   \<and> inline_scripts (ErrorDocument ch t) = concat (map inline_scripts ch)
   \<and> tags (ErrorDocument ch t) =
       [''html'', ''head'', ''meta'', ''meta'', ''meta'', ''meta'', ''meta'',
        ''link'', ''link'', ''link'', ''link'', ''link'', ''link'', ''link'', ''link'', ''link'']
       @ tags (title_element t)
       @ [''Meta'', ''Links'', ''body'']
       @ concat (map tags ch)
       @ [''Scripts'', ''LiveReload'']
   \<and> ''NonFlashOfWrongThemeEls'' \<notin> set (tags (ErrorDocument [] t))
   \<and> ''ScrollRestoration'' \<notin> set (tags (ErrorDocument [] t))
   \<and> ''script'' \<notin> set (tags (ErrorDocument [] t))"
proof -
  have "root_prop (ErrorDocument ch t) ''className'' = Some (PStr ''dark'')"
    by (simp add: ErrorDocument_def)
  moreover have "''NonFlashOfWrongThemeEls'' \<notin> set (tags (ErrorDocument [] t))"
    "''ScrollRestoration'' \<notin> set (tags (ErrorDocument [] t))"
    "''script'' \<notin> set (tags (ErrorDocument [] t))"
    by (simp_all add: tags_ErrorDocument tags_title_element)
  ultimately show ?thesis
    using tags_ErrorDocument [of ch t] scripts_ErrorDocument [of ch t] by blast
qed

theorem ErrorDocument_reduced_witness:
  "root_prop (ErrorDocument [Text ''x''] (Some ''Error!'')) ''className'' = Some (PStr ''dark'')
   \<and> inline_scripts (ErrorDocument [Text ''x''] (Some ''Error!'')) = []
   \<and> ''script'' \<notin> set (tags (ErrorDocument [] (Some ''Error!'')))"
  using ErrorDocument_reduced [of "[Text ''x'']" "Some ''Error!''"]
  by simp

text \<open>
  Claim C6, as it is written, says that the reduced error document omits the
  live-reload wiring. It does not: the \<^verbatim>\<open>LiveReload\<close> element is the last child of
  its body.
\<close>

theorem ErrorDocument_counterexample:
  "''LiveReload'' \<in> set (tags (ErrorDocument [] None))"
  by (simp add: tags_ErrorDocument)

text \<open>
  Claim C7. For every request, the theme of the root loader's payload is the theme of
  the session, and the class of the root \<^verbatim>\<open>html\<close> element that \<^verbatim>\<open>App\<close> renders is
  computed from this payload. When the session has a theme, the class is that theme's
  name on every render, so \<^verbatim>\<open>dark\<close> for the session theme \<^verbatim>\<open>dark\<close>: a later
  render on the client, whatever the browser would choose by itself, gives the same
  tree as the render on the server. The markup that fixes the theme comes before every
  client script: the class is on the root element, the \<^verbatim>\<open>NonFlashOfWrongThemeEls\<close>
  element (told whether the server knows the theme) is in the head, where only
  \<^verbatim>\<open>meta\<close> and \<^verbatim>\<open>link\<close> elements precede it, and the head has no inline script.
\<close>

theorem dark_theme_root_class:
  "\<exists>d. useLoaderData (loader_root env users req) = Some d
      \<and> theme d = getTheme (getThemeSession req)
      \<and> (\<forall>own.
            root_prop (first_child (App own d)) ''className''
              = Some (PStr (cx (useTheme (theme d) own)))
          \<and> before_tag ''NonFlashOfWrongThemeEls'' (tags (first_child (App own d))) =
              [''html'', ''head'', ''meta'', ''meta'', ''meta'', ''meta'', ''meta'',
               ''link'', ''link'', ''link'', ''link'', ''link'', ''link'', ''link'', ''link'',
               ''link'']
          \<and> Elem ''NonFlashOfWrongThemeEls'' [(''ssrTheme'', PBool (theme d \<noteq> None))] []
              \<in> set (children_of (first_child (first_child (App own d))))
          \<and> inline_scripts (first_child (first_child (App own d))) = [])
      \<and> (\<forall>t own. getTheme (getThemeSession req) = Some t \<longrightarrow>
            root_prop (first_child (App own d)) ''className'' = Some (PStr (theme_string t))
          \<and> App own d = App None d)
      \<and> (getTheme (getThemeSession req) = Some Dark \<longrightarrow>
            (\<forall>own. root_prop (first_child (App own d)) ''className'' = Some (PStr ''dark'')
                 \<and> App own d = App None d))"
proof -
  define d where "d = \<lparr>theme = getTheme (getThemeSession req), user = getUser users req,
             ENV = Some [(''RECAPTCHA_ENABLED'', env ''RECAPTCHA_ENABLED''),
                         (''RECAPTCHA_SITE_KEY'', env ''RECAPTCHA_SITE_KEY'')]\<rparr>"
  have payload: "useLoaderData (loader_root env users req) = Some d"
    unfolding d_def by (rule payload_root)
  have same: "theme d = getTheme (getThemeSession req)"
    by (simp add: d_def)
  have rendered: "\<forall>own.
            root_prop (first_child (App own d)) ''className''
              = Some (PStr (cx (useTheme (theme d) own)))
          \<and> before_tag ''NonFlashOfWrongThemeEls'' (tags (first_child (App own d))) =
              [''html'', ''head'', ''meta'', ''meta'', ''meta'', ''meta'', ''meta'',
               ''link'', ''link'', ''link'', ''link'', ''link'', ''link'', ''link'', ''link'',
               ''link'']
          \<and> Elem ''NonFlashOfWrongThemeEls'' [(''ssrTheme'', PBool (theme d \<noteq> None))] []
              \<in> set (children_of (first_child (first_child (App own d))))
          \<and> inline_scripts (first_child (first_child (App own d))) = []"
    by (simp only: first_child_App class_Document before_Document head_Document simp_thms)
  have fixed: "\<forall>t own. getTheme (getThemeSession req) = Some t \<longrightarrow>
            root_prop (first_child (App own d)) ''className'' = Some (PStr (theme_string t))
          \<and> App own d = App None d"
  proof (intro allI impI conjI)
    fix t own
    assume "getTheme (getThemeSession req) = Some t"
    with same have t: "theme d = Some t" by simp
    show "root_prop (first_child (App own d)) ''className'' = Some (PStr (theme_string t))"
      by (simp only: first_child_App class_Document t useTheme_Some) (simp add: cx_def)
    show "App own d = App None d"
      using t by (rule App_specified)
  qed
  have dark: "getTheme (getThemeSession req) = Some Dark \<longrightarrow>
            (\<forall>own. root_prop (first_child (App own d)) ''className'' = Some (PStr ''dark'')
                 \<and> App own d = App None d)"
  proof (intro allI impI)
    fix own
    assume "getTheme (getThemeSession req) = Some Dark"
    with fixed have both: "root_prop (first_child (App own d)) ''className''
                       = Some (PStr (theme_string Dark)) \<and> App own d = App None d"
      by blast
    show "root_prop (first_child (App own d)) ''className'' = Some (PStr ''dark'')
                 \<and> App own d = App None d"
      using both unfolding theme_string.simps .
  qed
  show ?thesis
    by (rule exI [of _ d]) (intro conjI payload same rendered fixed dark)
qed

theorem dark_theme_root_class_witness:
  "getTheme (getThemeSession (signed_in [])) = Some Dark
   \<and> (\<exists>d. useLoaderData (loader_root Map.empty Map.empty (signed_in [])) = Some d
          \<and> theme d = Some Dark
          \<and> root_prop (first_child (App (Some Light) d)) ''className'' = Some (PStr ''dark'')
          \<and> App (Some Light) d = App None d)"
proof -
  have dark: "getTheme (getThemeSession (signed_in [])) = Some Dark"
    by (simp add: getTheme_def getThemeSession_def getSession_def signed_in_def)
  from dark_theme_root_class [of Map.empty Map.empty "signed_in []"]
  obtain d where d: "useLoaderData (loader_root Map.empty Map.empty (signed_in [])) = Some d"
    "theme d = getTheme (getThemeSession (signed_in []))"
    "getTheme (getThemeSession (signed_in [])) = Some Dark \<longrightarrow>
       (\<forall>own. root_prop (first_child (App own d)) ''className'' = Some (PStr ''dark'')
            \<and> App own d = App None d)"
    by (elim exE conjE) (rule that)
  from d(3) dark have both: "root_prop (first_child (App (Some Light) d)) ''className''
                       = Some (PStr ''dark'')
                 \<and> App (Some Light) d = App None d"
    by blast
  have th: "theme d = Some Dark"
    using d(2) dark by simp
  show ?thesis
    by (intro conjI exI [of _ d] dark d(1) th both [THEN conjunct1] both [THEN conjunct2])
qed

text \<open>
  Claim C8. For every request, the root loader's \<^verbatim>\<open>ENV\<close> has the two keys
  \<^verbatim>\<open>RECAPTCHA_ENABLED\<close> and \<^verbatim>\<open>RECAPTCHA_SITE_KEY\<close> and no others, and the only
  inline script of the page that \<^verbatim>\<open>App\<close> renders, on either side, assigns to \<^verbatim>\<open>window.ENV\<close> the
  JSON text of exactly this object. So two process environments that agree on these
  two variables give the same loader response: no other variable reaches the client.
\<close>

theorem ENV_whitelist:
  "(\<exists>d. useLoaderData (loader_root env users req) = Some d
        \<and> ENV d = Some [(''RECAPTCHA_ENABLED'', env ''RECAPTCHA_ENABLED''),
                        (''RECAPTCHA_SITE_KEY'', env ''RECAPTCHA_SITE_KEY'')]
        \<and> inline_scripts (App own d) = [''window.ENV = '' @ JSON_stringify (ENV d)])
   \<and> (env ''RECAPTCHA_ENABLED'' = env' ''RECAPTCHA_ENABLED''
        \<and> env ''RECAPTCHA_SITE_KEY'' = env' ''RECAPTCHA_SITE_KEY''
      \<longrightarrow> loader_root env users req = loader_root env' users req)"
  by (simp add: useLoaderData_def loader_root_def json_def App_def scripts_Document)

theorem ENV_whitelist_witness:
  "[''RECAPTCHA_ENABLED'' \<mapsto> ''true'', ''SESSION_SECRET'' \<mapsto> ''s3cret''] ''SESSION_SECRET''
     \<noteq> [''RECAPTCHA_ENABLED'' \<mapsto> ''true'', ''SESSION_SECRET'' \<mapsto> ''other''] ''SESSION_SECRET''
   \<and> loader_root [''RECAPTCHA_ENABLED'' \<mapsto> ''true'', ''SESSION_SECRET'' \<mapsto> ''s3cret'']
        Map.empty (anonymous [])
     = loader_root [''RECAPTCHA_ENABLED'' \<mapsto> ''true'', ''SESSION_SECRET'' \<mapsto> ''other'']
        Map.empty (anonymous [])"
  using ENV_whitelist [of "[''RECAPTCHA_ENABLED'' \<mapsto> ''true'', ''SESSION_SECRET'' \<mapsto> ''s3cret'']"
                          Map.empty "anonymous []" None
                          "[''RECAPTCHA_ENABLED'' \<mapsto> ''true'', ''SESSION_SECRET'' \<mapsto> ''other'']"]
  by simp

section \<open>Properties of the protected routes\<close>

text \<open>
  Claim C4. For every request to the theme route without a user id in its session,
  the loader stops at \<^verbatim>\<open>requireUserId\<close>: it throws the redirect response of
  \<^verbatim>\<open>requireUserId\<close> and nothing of the loader runs after it. With a user id in the
  session the loader returns \<^verbatim>\<open>null\<close>.
\<close>

theorem loader_theme_guard:
  "(session_userId (getSession req) = None \<longrightarrow>
      loader_theme l req = Inl (redirect l Map.empty)
      \<and> redirect_class (redirect l Map.empty :: unit response))
   \<and> (\<forall>uid. session_userId (getSession req) = Some uid \<longrightarrow> loader_theme l req = Inr JNull)"
  by (simp add: loader_theme_def requireUserId_def redirect_class_def redirect_def)

theorem loader_theme_guard_witness:
  "session_userId (getSession (anonymous [])) = None
   \<and> isl (loader_theme ''/login'' (anonymous []))
   \<and> status_of (projl (loader_theme ''/login'' (anonymous []))) = 302
   \<and> session_userId (getSession (signed_in [])) = Some ''u1''
   \<and> loader_theme ''/login'' (signed_in []) = Inr JNull"
  using loader_theme_guard [of "anonymous []" "''/login''"]
        loader_theme_guard [of "signed_in []" "''/login''"]
  by (simp add: getSession_def empty_session_def redirect_def anonymous_def signed_in_def)

text \<open>
  Claim C1, as the code has it. For every POST request to the notes-creation action
  whose form fails the schema, \<^verbatim>\<open>createNote\<close> is never called. When the request
  has a user id in its session, the action returns the 400 response that carries the
  field errors of the schema parse. When it has none, \<^verbatim>\<open>requireUserId\<close> rejects
  first and the action throws its redirect instead of returning the 400 response.
\<close>

theorem action_invalid_form:
  assumes "safeParse c (form req) = Inl e"
  shows "snd (action c req) = []
       \<and> (session_userId (getSession req) \<noteq> None
            \<longrightarrow> fst (action c req) = Inr (json (Errors (format c e)) 400)
              \<and> status_of (json (Errors (format c e)) 400) = 400
              \<and> body_of (json (Errors (format c e)) 400) = Some (Errors (format c e)))
       \<and> (session_userId (getSession req) = None
            \<longrightarrow> fst (action c req) = Inl (redirect (login c) Map.empty))"
  using assms
  by (cases "session_userId (getSession req)")
     (simp_all add: action_def requireUserId_def json_def)

theorem action_invalid_form_witness:
  "safeParse sample (form (signed_in [(''body'', ''text'')])) = Inl [(''title'', [''Required''])]
   \<and> session_userId (getSession (signed_in [(''body'', ''text'')])) \<noteq> None
   \<and> snd (action sample (signed_in [(''body'', ''text'')])) = []
   \<and> fst (action sample (signed_in [(''body'', ''text'')]))
       = Inr (json (Errors [(''title'', [''Required''])]) 400)"
proof -
  have invalid: "safeParse sample (form (signed_in [(''body'', ''text'')]))
                   = Inl [(''title'', [''Required''])]"
    by (simp add: sample_def sample_safeParse_def signed_in_def)
  have user: "session_userId (getSession (signed_in [(''body'', ''text'')])) \<noteq> None"
    by (simp add: getSession_def signed_in_def)
  from action_invalid_form [OF invalid] invalid user show ?thesis
    by (simp add: sample_def)
qed

text \<open>
  Claim C1, as it is written, promises the 400 response for every request whose form
  fails the schema. A request without a session whose form lacks the title is
  answered otherwise: the action throws the 302 redirect of \<^verbatim>\<open>requireUserId\<close>.
\<close>

theorem action_invalid_form_counterexample:
  "safeParse sample (form (anonymous [(''body'', ''text'')])) = Inl [(''title'', [''Required''])]
   \<and> isl (fst (action sample (anonymous [(''body'', ''text'')])))
   \<and> status_of (projl (fst (action sample (anonymous [(''body'', ''text'')])))) = 302
   \<and> fst (action sample (anonymous [(''body'', ''text'')]))
       \<noteq> Inr (json (Errors [(''title'', [''Required''])]) 400)"
  by (simp add: action_def requireUserId_def getSession_def empty_session_def anonymous_def
        sample_def sample_safeParse_def redirect_def)

text \<open>
  Claim C2, as the code has it. For every POST request to the notes-creation action
  whose form passes the schema: when the request has a user id in its session,
  \<^verbatim>\<open>createNote\<close> is called exactly once, with the parsed title and body and the id
  of that user, and the action returns a redirect to \<^verbatim>\<open>/notes\<close> whose
  \<^verbatim>\<open>Set-Cookie\<close> header is the committed session, the one that holds the success
  flash message set after the validation. When the request has no user id,
  \<^verbatim>\<open>requireUserId\<close> rejects first: \<^verbatim>\<open>createNote\<close> is not called and the action
  throws the redirect of \<^verbatim>\<open>requireUserId\<close>, which has no \<^verbatim>\<open>Set-Cookie\<close> header.
\<close>

theorem action_valid_form:
  assumes "safeParse c (form req) = Inr d"
  shows "(\<forall>uid. session_userId (getSession req) = Some uid \<longrightarrow>
            (let args = \<lparr>title = title d, body = body d, userId = uid\<rparr>;
                 msg = ''Note with title: '' @ [CHR 0x27]
                       @ (case createNote c args of None \<Rightarrow> ''undefined'' | Some n \<Rightarrow> title n)
                       @ [CHR 0x27] @ '' was successfully created.'';
                 flashed = flash (getSession req) ''success'' msg
             in snd (action c req) = [args]
              \<and> fst (action c req)
                  = Inr (redirect ''/notes'' [''Set-Cookie'' \<mapsto> commitSession c flashed])
              \<and> redirect_class (projr (fst (action c req)))
              \<and> headers_of (projr (fst (action c req))) ''Location'' = Some ''/notes''
              \<and> headers_of (projr (fst (action c req))) ''Set-Cookie''
                  = Some (commitSession c flashed)
              \<and> session_flash flashed ''success'' = Some msg))
       \<and> (session_userId (getSession req) = None \<longrightarrow>
            snd (action c req) = []
          \<and> fst (action c req) = Inl (redirect (login c) Map.empty)
          \<and> headers_of (projl (fst (action c req))) ''Set-Cookie'' = None)"
  using assms
  by (simp add: action_def requireUserId_def Let_def flash_def redirect_def redirect_class_def)

theorem action_valid_form_witness:
  "session_userId (getSession (signed_in [(''title'', ''T''), (''body'', ''B'')])) = Some ''u1''
   \<and> safeParse sample (form (signed_in [(''title'', ''T''), (''body'', ''B'')]))
       = Inr \<lparr>title = ''T'', body = ''B''\<rparr>
   \<and> snd (action sample (signed_in [(''title'', ''T''), (''body'', ''B'')]))
       = [\<lparr>title = ''T'', body = ''B'', userId = ''u1''\<rparr>]
   \<and> \<not> isl (fst (action sample (signed_in [(''title'', ''T''), (''body'', ''B'')])))
   \<and> headers_of (projr (fst (action sample (signed_in [(''title'', ''T''), (''body'', ''B'')]))))
        ''Location'' = Some ''/notes''"
proof -
  let ?req = "signed_in [(''title'', ''T''), (''body'', ''B'')]"
  have user: "session_userId (getSession ?req) = Some ''u1''"
    by (simp add: getSession_def signed_in_def)
  have valid: "safeParse sample (form ?req) = Inr \<lparr>title = ''T'', body = ''B''\<rparr>"
    by (simp add: sample_def sample_safeParse_def signed_in_def)
  note r = action_valid_form [OF valid, THEN conjunct1, rule_format, OF user, unfolded Let_def]
  have calls: "snd (action sample ?req) = [\<lparr>title = ''T'', body = ''B'', userId = ''u1''\<rparr>]"
    using r by simp
  obtain x where "fst (action sample ?req) = Inr x"
    using r by (elim conjE) (rule that)
  then have returned: "\<not> isl (fst (action sample ?req))"
    by simp
  have location: "headers_of (projr (fst (action sample ?req))) ''Location'' = Some ''/notes''"
    using r by (elim conjE)
  show ?thesis
    by (intro conjI user valid calls returned location)
qed

text \<open>
  Claim C2, as it is written, promises one \<^verbatim>\<open>createNote\<close> call and the redirect to
  \<^verbatim>\<open>/notes\<close> with a \<^verbatim>\<open>Set-Cookie\<close> header for every request whose form passes
  the schema. A request without a session whose form has a title and a body is answered
  otherwise: no call is made, and the action throws the redirect of
  \<^verbatim>\<open>requireUserId\<close> to the login page, without a \<^verbatim>\<open>Set-Cookie\<close> header.
\<close>

theorem action_valid_form_counterexample:
  "safeParse sample (form (anonymous [(''title'', ''T''), (''body'', ''B'')]))
     = Inr \<lparr>title = ''T'', body = ''B''\<rparr>
   \<and> snd (action sample (anonymous [(''title'', ''T''), (''body'', ''B'')])) = []
   \<and> isl (fst (action sample (anonymous [(''title'', ''T''), (''body'', ''B'')])))
   \<and> headers_of (projl (fst (action sample (anonymous [(''title'', ''T''), (''body'', ''B'')]))))
        ''Location'' = Some ''/login''
   \<and> headers_of (projl (fst (action sample (anonymous [(''title'', ''T''), (''body'', ''B'')]))))
        ''Set-Cookie'' = None"
  by (simp add: action_def requireUserId_def getSession_def empty_session_def anonymous_def
        sample_def sample_safeParse_def redirect_def)

end
